theory Spec2Isabelle
  imports Main "HOL-Library.Sublist"
begin

section \<open>Python strings and integers\<close>

text \<open>
  A Python \<open>str\<close> is modelled as a \<open>string\<close>, one \<open>char\<close> per character of the text.
  The helpers below are the builtin string operations that \<open>scan_custom_node.py\<close> uses.
\<close>

definition digit_char :: "nat \<Rightarrow> char" where
  "digit_char d = ''0123456789'' ! d"

text \<open>\<open>str(n)\<close> of a non-negative integer: its decimal digits.\<close>

function str_nat :: "nat \<Rightarrow> string" where
  "str_nat n = (if n < 10 then [digit_char n] else str_nat (n div 10) @ [digit_char (n mod 10)])"
  by pat_completeness auto
termination
  by (relation "measure id") auto

declare str_nat.simps [simp del]

text \<open>The rendering of an \<open>int\<close> inside an f-string.\<close>

definition str_int :: "int \<Rightarrow> string" where
  "str_int i = (if i < 0 then CHR ''-'' # str_nat (nat (- i)) else str_nat (nat i))"

text \<open>\<open>s.split(".")[0]\<close>: the text before the first dot.\<close>

definition split_dot_first :: "string \<Rightarrow> string" where
  "split_dot_first s = takeWhile (\<lambda>c. c \<noteq> CHR ''.'') s"

text \<open>\<open>sep.join(values)\<close>.\<close>

fun join :: "string \<Rightarrow> string list \<Rightarrow> string" where
  "join sep [] = []"
| "join sep [v] = v"
| "join sep (v # w # vs) = v @ sep @ join sep (w # vs)"

text \<open>\<open>s.lower()\<close> on the ASCII letters; every other character is kept.\<close>

definition lower_char :: "char \<Rightarrow> char" where
  "lower_char c =
     (case map_of (zip ''ABCDEFGHIJKLMNOPQRSTUVWXYZ'' ''abcdefghijklmnopqrstuvwxyz'') c of
        Some l \<Rightarrow> l
      | None \<Rightarrow> c)"

definition lower :: "string \<Rightarrow> string" where
  "lower s = map lower_char s"

text \<open>\<open>s.upper()\<close> on the ASCII letters; every other character is kept.\<close>

definition upper_char :: "char \<Rightarrow> char" where
  "upper_char c =
     (case map_of (zip ''abcdefghijklmnopqrstuvwxyz'' ''ABCDEFGHIJKLMNOPQRSTUVWXYZ'') c of
        Some u \<Rightarrow> u
      | None \<Rightarrow> c)"

definition upper :: "string \<Rightarrow> string" where
  "upper s = map upper_char s"

text \<open>\<open>char.isdigit()\<close> on the characters an identifier matched by
  \<open>OBFUSCATED_VAR_RE\<close> can hold.\<close>

definition isdigit :: "char \<Rightarrow> bool" where
  "isdigit c = (c \<in> set ''0123456789'')"

text \<open>
  \<open>source.splitlines()\<close>: the text is cut at every line boundary (\<open>\n\<close>, \<open>\r\<close>,
  \<open>\r\n\<close>, \<open>\v\<close>, \<open>\f\<close>, \<open>\x1c\<close>, \<open>\x1d\<close>, \<open>\x1e\<close>, \<open>\x85\<close>), the
  boundaries are dropped, and no empty line is added after a final boundary.
  \<open>splitlines_from cur s\<close> carries the characters of the current line in \<open>cur\<close>.
\<close>

definition is_line_boundary :: "char \<Rightarrow> bool" where
  "is_line_boundary c =
     (c \<in> set [CHR 0x0A, CHR 0x0D, CHR 0x0B, CHR 0x0C, CHR 0x1C, CHR 0x1D, CHR 0x1E, CHR 0x85])"

fun splitlines_from :: "string \<Rightarrow> string \<Rightarrow> string list" where
  "splitlines_from cur [] = (if cur = [] then [] else [cur])"
| "splitlines_from cur (c # s) =
     (if c = CHR 0x0D then
        (case s of
           d # s' \<Rightarrow> if d = CHR 0x0A then cur # splitlines_from [] s' else cur # splitlines_from [] s
         | [] \<Rightarrow> cur # splitlines_from [] s)
      else if is_line_boundary c then cur # splitlines_from [] s
      else splitlines_from (cur @ [c]) s)"

definition splitlines :: "string \<Rightarrow> string list" where
  "splitlines s = splitlines_from [] s"

section \<open>The issue model\<close>

text \<open>An issue is the dict \<open>{"severity": ..., "detail": ...}\<close>; the result of a scan is
  the dict \<open>{"file": ..., "issues": ..., "secure": ...}\<close>.\<close>

record issue =
  severity :: string
  detail :: string

record scan_result =
  file_path :: string
  issues :: "issue list"
  secure :: bool

text \<open>
  How a call ends: it returns a value, it is left by an exception that nothing in the
  program catches (the class of the exception is kept), or it never returns.
\<close>

datatype 'a outcome = Returns 'a | Raises string | Hangs

section \<open>The signature tables\<close>

definition RISKY_IMPORTS :: "(string \<times> string) list" where
  "RISKY_IMPORTS =
     [(''os'', ''LOW''),
      (''subprocess'', ''MEDIUM''),
      (''socket'', ''MEDIUM''),
      (''winreg'', ''MEDIUM''),
      (''ctypes'', ''MEDIUM''),
      (''requests'', ''LOW''),
      (''urllib'', ''LOW'')]"

definition DANGEROUS_CALLS :: "(string \<times> string \<times> string) list" where
  "DANGEROUS_CALLS =
     [(''eval'', ''HIGH'', ''Uses eval() for dynamic code execution.''),
      (''exec'', ''HIGH'', ''Uses exec() for dynamic code execution.''),
      (''os.system'', ''HIGH'', ''Uses os.system() to execute shell commands.''),
      (''subprocess.Popen'', ''HIGH'', ''Uses subprocess.Popen() to spawn a process.''),
      (''subprocess.run'', ''MEDIUM'', ''Uses subprocess.run() to execute a process.''),
      (''subprocess.call'', ''MEDIUM'', ''Uses subprocess.call() to execute a process.'')]"

definition NETWORK_CALL_PREFIXES :: "string list" where
  "NETWORK_CALL_PREFIXES =
     [''requests.get'',
      ''requests.post'',
      ''requests.put'',
      ''requests.delete'',
      ''requests.request'',
      ''urllib.request.urlopen'',
      ''urllib.urlopen'']"

text \<open>
  The \<open>re\<close> module and \<open>ast.parse\<close> are libraries outside the repository. Each compiled
  pattern of the source is a field holding its \<open>search\<close> (or \<open>match\<close>) on a text:
  a \<open>bool\<close> where the source only tests the match, the matched group where it reads it.
  \<open>ast_parse source filename\<close> is \<open>ast.parse\<close>: it returns the tree, raises a
  \<open>SyntaxError\<close>, or raises another exception (\<open>MemoryError\<close> or \<open>RecursionError\<close> on
  deeply nested text, \<open>ValueError\<close> on a NUL character in older interpreters), of which the
  class is kept.
\<close>

record syntax_error =
  msg :: string
  lineno :: "int option"

datatype const_value = Str string | Not_str

text \<open>
  The syntax tree. The node classes that the scan inspects have a constructor of their
  own, with the fields it reads; every other class is \<open>Other\<close>, with its child nodes in
  the order of \<open>ast.iter_child_nodes\<close>. Child nodes that are leaves of a class the scan
  ignores (\<open>alias\<close>, the \<open>Load\<close> context) are left out: they emit nothing and have no
  children, so the walk visits the remaining nodes in the same order.
  A \<open>Call\<close> holds \<open>func\<close>, \<open>args\<close>, \<open>keywords\<close> (each a \<open>Keyword\<close> node) and
  \<open>lineno\<close>; an \<open>Import\<close> holds the \<open>name\<close> of each alias and \<open>lineno\<close>; an
  \<open>ImportFrom\<close> holds \<open>module\<close> and \<open>lineno\<close>; a \<open>Dict\<close> holds \<open>keys\<close> (with
  \<open>None\<close> for a \<open>**\<close> entry) and \<open>values\<close>.
\<close>

datatype node =
    Import "string list" int
  | ImportFrom "string option" int
  | Call node "node list" "node list" int
  | Keyword "string option" node
  | Name string
  | Attribute node string
  | Constant const_value
  | JoinedStr "node list"
  | List_node "node list"
  | Tuple_node "node list"
  | Set_node "node list"
  | Dict "node option list" "node list"
  | Other "node list"

datatype parse_result = Tree node | Syntax_error syntax_error | Parser_raises string

record pylib =
  PIP_INSTALL_RE :: "string \<Rightarrow> bool"
  BASE64_RE :: "string \<Rightarrow> bool"
  OBFUSCATED_VAR_RE :: "string \<Rightarrow> string option"
  URL_RE :: "string \<Rightarrow> string option"
  IP_RE :: "string \<Rightarrow> string option"
  PIP_ARGS_RE :: "string \<Rightarrow> bool"
  DISCORD_WEBHOOK_RE :: "string \<Rightarrow> bool"
  STRATUM_RE :: "string \<Rightarrow> bool"
  MINING_POOL_RE :: "string \<Rightarrow> bool"
  EVAL_LINE_RE :: "string \<Rightarrow> bool"
  EXEC_LINE_RE :: "string \<Rightarrow> bool"
  OS_SYSTEM_LINE_RE :: "string \<Rightarrow> bool"
  POPEN_LINE_RE :: "string \<Rightarrow> bool"
  RUN_CALL_LINE_RE :: "string \<Rightarrow> bool"
  ast_parse :: "string \<Rightarrow> string \<Rightarrow> parse_result"

definition MALICIOUS_INDICATORS :: "pylib \<Rightarrow> ((string \<Rightarrow> bool) \<times> string \<times> string) list" where
  "MALICIOUS_INDICATORS L =
     [(DISCORD_WEBHOOK_RE L, ''HIGH'', ''Discord webhook URL found.''),
      (STRATUM_RE L, ''HIGH'', ''Possible mining pool (stratum) URL found.''),
      (MINING_POOL_RE L, ''HIGH'', ''Known crypto-mining pool reference found.'')]"

definition DANGEROUS_LINE_PATTERNS :: "pylib \<Rightarrow> ((string \<Rightarrow> bool) \<times> string \<times> string) list" where
  "DANGEROUS_LINE_PATTERNS L =
     [(EVAL_LINE_RE L, ''HIGH'', ''Uses eval() for dynamic code execution.''),
      (EXEC_LINE_RE L, ''HIGH'', ''Uses exec() for dynamic code execution.''),
      (OS_SYSTEM_LINE_RE L, ''HIGH'', ''Uses os.system() to execute shell commands.''),
      (POPEN_LINE_RE L, ''HIGH'', ''Uses subprocess.Popen() to spawn a process.''),
      (RUN_CALL_LINE_RE L, ''MEDIUM'', ''Uses subprocess to execute a process.'')]"

section \<open>The static scan\<close>

text \<open>
  The state of \<open>_static_scan\<close>: the list \<open>issues\<close> and the set \<open>seen\<close> of
  \<open>(severity, detail)\<close> keys. \<open>add_issue\<close> is the closure of the source, with the
  state passed in and returned.
\<close>

type_synonym scan_state = "issue list \<times> (string \<times> string) set"

definition with_line :: "string \<Rightarrow> int option \<Rightarrow> string" where
  "with_line d line = (case line of None \<Rightarrow> d | Some n \<Rightarrow> d @ '' (line '' @ str_int n @ '')'')"

definition add_issue :: "string \<Rightarrow> string \<Rightarrow> int option \<Rightarrow> scan_state \<Rightarrow> scan_state" where
  "add_issue sev d line st =
     (let d' = with_line d line;
          key = (sev, d')
      in if key \<in> snd st then st
         else (fst st @ [\<lparr>severity = sev, detail = d'\<rparr>], insert key (snd st)))"

text \<open>\<open>ast.iter_child_nodes\<close> and \<open>ast.walk\<close>: breadth first, from a queue.\<close>

fun child_nodes :: "node \<Rightarrow> node list" where
  "child_nodes (Import names l) = []"
| "child_nodes (ImportFrom m l) = []"
| "child_nodes (Call f args kws l) = f # args @ kws"
| "child_nodes (Keyword a v) = [v]"
| "child_nodes (Name i) = []"
| "child_nodes (Attribute v a) = [v]"
| "child_nodes (Constant c) = []"
| "child_nodes (JoinedStr vs) = vs"
| "child_nodes (List_node es) = es"
| "child_nodes (Tuple_node es) = es"
| "child_nodes (Set_node es) = es"
| "child_nodes (Dict ks vs) = concat (map (\<lambda>k. case k of None \<Rightarrow> [] | Some n \<Rightarrow> [n]) ks) @ vs"
| "child_nodes (Other cs) = cs"

lemma sum_size_keys:
  "sum_list (map (\<lambda>n. Suc (size n)) (concat (map (\<lambda>k. case k of None \<Rightarrow> [] | Some n \<Rightarrow> [n]) ks)))
     \<le> size_list (size_option size) (ks :: node option list)"
  by (induction ks) (auto split: option.splits)

lemma sum_Suc_size:
  "sum_list (map (\<lambda>n. Suc (size n)) ns) = sum_list (map size ns) + length (ns :: node list)"
  by (induction ns) auto

lemma child_nodes_smaller: "sum_list (map (\<lambda>c. Suc (size c)) (child_nodes n)) \<le> size n"
proof (cases n)
  case (Dict ks vs)
  have "sum_list (map (\<lambda>c. Suc (size c)) (child_nodes n))
          = sum_list (map (\<lambda>n. Suc (size n)) (concat (map (\<lambda>k. case k of None \<Rightarrow> [] | Some n \<Rightarrow> [n]) ks)))
            + (sum_list (map size vs) + length vs)"
    using Dict by (simp add: sum_Suc_size)
  also have "\<dots> \<le> size_list (size_option size) ks + (sum_list (map size vs) + length vs)"
    using sum_size_keys [of ks] by simp
  also have "\<dots> \<le> size n"
    using Dict by (simp add: size_list_conv_sum_list)
  finally show ?thesis .
qed (simp_all add: size_list_conv_sum_list sum_Suc_size)

function walk :: "node list \<Rightarrow> node list" where
  "walk [] = []"
| "walk (n # todo) = n # walk (todo @ child_nodes n)"
  by pat_completeness auto
termination
proof (relation "measure (\<lambda>todo. sum_list (map (\<lambda>n. Suc (size n)) todo))")
  fix n :: node and todo :: "node list"
  show "(todo @ child_nodes n, n # todo) \<in> measure (\<lambda>todo. sum_list (map (\<lambda>n. Suc (size n)) todo))"
    using child_nodes_smaller [of n] by simp
qed simp

fun full_name :: "node \<Rightarrow> string" where
  "full_name (Name i) = i"
| "full_name (Attribute v a) =
     (let base = full_name v in if base \<noteq> [] then base @ ''.'' @ a else a)"
| "full_name n = []"

text \<open>Whether the attribute chain of a callee ends in an identifier, and whether a callee
  is an identifier or an attribute access at all.\<close>

fun rooted :: "node \<Rightarrow> bool" where
  "rooted (Name i) = True"
| "rooted (Attribute v a) = rooted v"
| "rooted n = False"

fun is_name_or_attribute :: "node \<Rightarrow> bool" where
  "is_name_or_attribute (Name i) = True"
| "is_name_or_attribute (Attribute v a) = True"
| "is_name_or_attribute n = False"

text \<open>The string literals reachable from a node, as \<open>_extract_string_literals\<close>
  collects them.\<close>

lemma zip_key_le:
  "(Some k, v) \<in> set (zip keys vals) \<Longrightarrow>
     size k \<le> size_list (size_option size) (keys :: node option list) + size_list size (vals :: node list)"
proof -
  assume "(Some k, v) \<in> set (zip keys vals)"
  then have "Some k \<in> set keys" by (rule set_zip_leftD)
  then have "size k < size_list (size_option size) keys" by (induction keys) auto
  then show ?thesis by simp
qed

lemma zip_val_le:
  "(key, v) \<in> set (zip keys vals) \<Longrightarrow>
     size v \<le> size_list (size_option size) (keys :: node option list) + size_list size (vals :: node list)"
proof -
  assume "(key, v) \<in> set (zip keys vals)"
  then have "v \<in> set vals" by (rule set_zip_rightD)
  then have "size v \<le> size_list size vals" by (induction vals) auto
  then show ?thesis by simp
qed

lemma elt_le: "x \<in> set xs \<Longrightarrow> size x \<le> size_list size (xs :: node list)"
  by (induction xs) auto

lemma keyword_value_le: "Keyword a v \<in> set kws \<Longrightarrow> size v \<le> size_list size kws"
  using elt_le [of "Keyword a v" kws] by simp

function (sequential) extract_string_literals :: "node \<Rightarrow> string list" where
  "extract_string_literals (Constant c) = (case c of Str s \<Rightarrow> [s] | Not_str \<Rightarrow> [])"
| "extract_string_literals (JoinedStr parts) =
     concat (map (\<lambda>part. case part of Constant (Str s) \<Rightarrow> [s] | _ \<Rightarrow> []) parts)"
| "extract_string_literals (List_node elts) = concat (map extract_string_literals elts)"
| "extract_string_literals (Tuple_node elts) = concat (map extract_string_literals elts)"
| "extract_string_literals (Set_node elts) = concat (map extract_string_literals elts)"
| "extract_string_literals (Dict keys vals) =
     concat (map (\<lambda>(key, val).
                    (case key of None \<Rightarrow> [] | Some k \<Rightarrow> extract_string_literals k)
                    @ extract_string_literals val)
                 (zip keys vals))"
| "extract_string_literals (Call f args keywords l) =
     concat (map extract_string_literals args)
     @ concat (map (\<lambda>kw. case kw of Keyword a v \<Rightarrow> extract_string_literals v | _ \<Rightarrow> []) keywords)"
| "extract_string_literals n = []"
  by pat_completeness auto
termination
  by (relation "measure size")
     (auto intro: zip_key_le zip_val_le dest!: elt_le keyword_value_le simp: less_Suc_eq_le)

definition extract_urls_from_call :: "pylib \<Rightarrow> node \<Rightarrow> string list" where
  "extract_urls_from_call L n =
     concat (map (\<lambda>val. if URL_RE L val \<noteq> None then [val]
                         else if IP_RE L val \<noteq> None then [val]
                         else [])
                 (extract_string_literals n))"

definition call_invokes_pip :: "pylib \<Rightarrow> node \<Rightarrow> bool" where
  "call_invokes_pip L n =
     (let vals = map lower (extract_string_literals n)
      in if sublist ''pip install'' (join '' '' vals) then True
         else if list_ex (PIP_ARGS_RE L) vals \<and> ''install'' \<in> set vals then True
         else False)"

text \<open>The detail texts that quote a name: \<open>f"Imports risky module '{module}'."\<close> and
  \<open>f"Network call via '{call_name}'."\<close>.\<close>

definition import_detail :: "string \<Rightarrow> string" where
  "import_detail module = ''Imports risky module '' @ [CHR 0x27] @ module @ [CHR 0x27] @ ''.''"

definition network_call_detail :: "string \<Rightarrow> string" where
  "network_call_detail call_name = ''Network call via '' @ [CHR 0x27] @ call_name @ [CHR 0x27] @ ''.''"

text \<open>The lookup of a module in the risky-import table, shared by the \<open>Import\<close> and the
  \<open>ImportFrom\<close> branch: \<open>severity = RISKY_IMPORTS.get(module)\<close>, then
  \<open>if severity: add_issue(...)\<close>.\<close>

definition flag_import :: "string \<Rightarrow> int \<Rightarrow> scan_state \<Rightarrow> scan_state" where
  "flag_import module l st =
     (case map_of RISKY_IMPORTS module of
        Some sev \<Rightarrow> if sev \<noteq> [] then add_issue sev (import_detail module) (Some l) st else st
      | None \<Rightarrow> st)"

text \<open>The body of the loop over \<open>ast.walk(tree)\<close>, for one node.\<close>

fun visit :: "pylib \<Rightarrow> node \<Rightarrow> scan_state \<Rightarrow> scan_state" where
  "visit L (Import names l) st =
     fold (\<lambda>name. flag_import (split_dot_first name) l) names st"
| "visit L (ImportFrom m l) st =
     (case m of
        None \<Rightarrow> st
      | Some mname \<Rightarrow> if mname \<noteq> [] then flag_import (split_dot_first mname) l st else st)"
| "visit L (Call f args kws l) st =
     (let call_name = full_name f;
          st1 = (case map_of DANGEROUS_CALLS call_name of
                   Some (sev, message) \<Rightarrow> add_issue sev message (Some l) st
                 | None \<Rightarrow> st);
          st2 = (if call_name \<in> set NETWORK_CALL_PREFIXES \<or> prefix ''urllib.'' call_name
                 then fold (\<lambda>url. add_issue ''MEDIUM''
                                     (''Network call target appears in code: '' @ url @ ''.'') (Some l))
                        (extract_urls_from_call L (Call f args kws l))
                        (add_issue ''MEDIUM'' (network_call_detail call_name) (Some l) st1)
                 else st1);
          st3 = (if call_name \<in> {''subprocess.run'', ''subprocess.call'', ''subprocess.Popen'', ''os.system''}
                 then (if call_invokes_pip L (Call f args kws l)
                       then add_issue ''HIGH'' ''Invokes pip install at runtime.'' (Some l) st2
                       else st2)
                 else st2)
      in st3)"
| "visit L n st = st"

text \<open>A table of line patterns applied to one line: each pattern that matches adds its
  issue.\<close>

definition apply_patterns ::
  "((string \<Rightarrow> bool) \<times> string \<times> string) list \<Rightarrow> string \<Rightarrow> int option \<Rightarrow> scan_state \<Rightarrow> scan_state" where
  "apply_patterns table line n st =
     fold (\<lambda>(pattern, sev, message) st. if pattern line then add_issue sev message n st else st) table st"

text \<open>The body of the loop over \<open>enumerate(lines, start=1)\<close>, for one line.\<close>

definition scan_line :: "pylib \<Rightarrow> nat \<times> string \<Rightarrow> scan_state \<Rightarrow> scan_state" where
  "scan_line L = (\<lambda>(idx, line) st.
     let n = Some (int idx);
         st1 = (if PIP_INSTALL_RE L line
                then add_issue ''HIGH'' ''Contains 'pip install' invocation string.'' n st
                else st);
         st2 = (if BASE64_RE L line
                then add_issue ''MEDIUM'' ''Large base64-like string found (possible obfuscation).'' n st1
                else st1);
         st3 = (case OBFUSCATED_VAR_RE L line of
                  Some group1 \<Rightarrow>
                    if list_ex isdigit group1
                    then add_issue ''LOW'' ''Unusually long variable name with digits (possible obfuscation).'' n st2
                    else st2
                | None \<Rightarrow> st2);
         st4 = apply_patterns (MALICIOUS_INDICATORS L) line n st3;
         st5 = (if sublist ''requests.'' line \<or> sublist ''urllib'' line
                then (let st' = (case URL_RE L line of
                                   Some url \<Rightarrow>
                                     add_issue ''MEDIUM'' (''Hard-coded URL in network call: '' @ url @ ''.'') n st4
                                 | None \<Rightarrow> st4)
                      in (case IP_RE L line of
                            Some ip \<Rightarrow>
                              add_issue ''MEDIUM'' (''Hard-coded IP in network call: '' @ ip @ ''.'') n st'
                          | None \<Rightarrow> st'))
                else st4);
         st6 = apply_patterns (DANGEROUS_LINE_PATTERNS L) line n st5
     in st6)"

definition line_scan :: "pylib \<Rightarrow> string list \<Rightarrow> scan_state \<Rightarrow> scan_state" where
  "line_scan L lines st = fold (scan_line L) (enumerate 1 lines) st"

definition tree_walk :: "pylib \<Rightarrow> node \<Rightarrow> scan_state \<Rightarrow> scan_state" where
  "tree_walk L tree st = fold (visit L) (walk [tree]) st"

definition parse_failure_detail :: "syntax_error \<Rightarrow> string" where
  "parse_failure_detail exc = ''Failed to parse Python AST: '' @ msg exc"

text \<open>
  \<open>_static_scan\<close>: the issues it returns (\<open>Inr\<close>), or the class of the exception of the
  parser that \<open>except SyntaxError\<close> does not catch and that leaves the function (\<open>Inl\<close>).
\<close>

definition static_scan :: "pylib \<Rightarrow> string \<Rightarrow> string \<Rightarrow> string + issue list" where
  "static_scan L source node_path =
     (let lines = splitlines source;
          st0 = ([], {})
      in case ast_parse L source node_path of
           Parser_raises e \<Rightarrow> Inl e
         | Syntax_error exc \<Rightarrow>
             (let st1 = add_issue ''MEDIUM'' (parse_failure_detail exc) (lineno exc) st0;
                  st3 = line_scan L lines st1
              in Inr (fst st3))
         | Tree tree \<Rightarrow>
             (let st2 = tree_walk L tree st0;
                  st3 = line_scan L lines st2
              in Inr (fst st3)))"

section \<open>The linter adapter\<close>

text \<open>
  Bandit is a library outside the repository. A run of it on a file is one of: the import
  of bandit fails with an exception (its text is kept); or the \<open>try\<close> block runs, the
  loop turns the findings of the list into issues one by one, and either ends or is left
  by an exception (its text is kept) after the findings processed so far.
\<close>

record bandit_finding =
  test_id :: string
  finding_text :: string
  finding_lineno :: "int option"
  finding_severity :: string

datatype bandit_outcome =
    Bandit_missing string
  | Bandit_ran "bandit_finding list" "string option"

definition bandit_issue :: "bandit_finding \<Rightarrow> issue" where
  "bandit_issue f =
     (let d = ''Bandit '' @ test_id f @ '': '' @ finding_text f;
          d' = (case finding_lineno f of
                  Some n \<Rightarrow> if n \<noteq> 0 then d @ '' (line '' @ str_int n @ '')'' else d
                | None \<Rightarrow> d)
      in \<lparr>severity = upper (finding_severity f), detail = d'\<rparr>)"

section \<open>The sandbox\<close>

text \<open>
  A Python value handed to an interceptor: \<open>None\<close>, or any other value with its \<open>str()\<close>.
\<close>

datatype pyval = PyNone | PyVal string

definition str_of :: "pyval \<Rightarrow> string" where
  "str_of v = (case v of PyNone \<Rightarrow> ''None'' | PyVal s \<Rightarrow> s)"

text \<open>
  One call of the scanned module into a stand-in installed by \<open>_dynamic_import_worker\<close>.
  The interceptors that format \<open>args={args} kwargs={kwargs}\<close> receive the two renderings;
  \<open>Network name args kwargs\<close> is a call of the closure \<open>blocked_network(name)\<close>;
  the \<open>Session\<close> calls are the methods of \<open>DummySession\<close> (with the \<open>str()\<close> of
  \<open>method\<close> and \<open>url\<close>), the \<open>Socket\<close> calls those of \<open>DummySocket\<close>.
  \<open>Direct_log severity detail\<close> is a call of \<open>log\<close> itself, which the module reaches
  through the closure of a stand-in (\<open>os.system.__closure__\<close>), with two texts of its
  choice.
\<close>

datatype intercepted =
    Os_system string string
  | Socket_create_connection string string
  | Subprocess_Popen string string
  | Subprocess_run string string
  | Subprocess_call string string
  | Network string "pyval list" "(string \<times> pyval) list"
  | Session_request string string
  | Session_get string
  | Session_post string
  | Socket_init string string
  | Socket_connect string string
  | Socket_send string string
  | Socket_recv string string
  | Socket_close
  | Direct_log string string

definition blocked_call :: "string \<Rightarrow> string \<Rightarrow> string \<Rightarrow> string \<Rightarrow> issue" where
  "blocked_call name sev args kwargs =
     \<lparr>severity = sev, detail = ''Runtime call blocked: '' @ name @ '' args='' @ args @ '' kwargs='' @ kwargs\<rparr>"

definition blocked_network :: "string \<Rightarrow> pyval list \<Rightarrow> (string \<times> pyval) list \<Rightarrow> issue" where
  "blocked_network name args kwargs =
     (let target = PyNone;
          target = (if args \<noteq> [] then hd args else target);
          target = (if target = PyNone
                    then (case map_of kwargs ''url'' of Some v \<Rightarrow> v | None \<Rightarrow> PyNone)
                    else target)
      in \<lparr>severity = ''HIGH'',
          detail = ''Runtime network call blocked: '' @ name @ '' target='' @ str_of target\<rparr>)"

definition session_request :: "string \<Rightarrow> string \<Rightarrow> issue" where
  "session_request method url =
     \<lparr>severity = ''HIGH'',
      detail = ''Runtime network call blocked: requests.Session.'' @ method @ '' target='' @ url\<rparr>"

text \<open>What an interceptor puts on the queue through \<open>log\<close>.\<close>

fun interceptor_log :: "intercepted \<Rightarrow> issue list" where
  "interceptor_log (Os_system a k) = [blocked_call ''os.system'' ''HIGH'' a k]"
| "interceptor_log (Socket_create_connection a k) = [blocked_call ''socket.create_connection'' ''HIGH'' a k]"
| "interceptor_log (Subprocess_Popen a k) =
     [\<lparr>severity = ''HIGH'', detail = ''Runtime call blocked: subprocess.Popen args='' @ a @ '' kwargs='' @ k\<rparr>]"
| "interceptor_log (Subprocess_run a k) =
     [\<lparr>severity = ''HIGH'', detail = ''Runtime call blocked: subprocess.run args='' @ a @ '' kwargs='' @ k\<rparr>]"
| "interceptor_log (Subprocess_call a k) =
     [\<lparr>severity = ''HIGH'', detail = ''Runtime call blocked: subprocess.call args='' @ a @ '' kwargs='' @ k\<rparr>]"
| "interceptor_log (Network name args kwargs) = [blocked_network name args kwargs]"
| "interceptor_log (Session_request method url) = [session_request method url]"
| "interceptor_log (Session_get url) = [session_request ''get'' url]"
| "interceptor_log (Session_post url) = [session_request ''post'' url]"
| "interceptor_log (Socket_init a k) =
     [\<lparr>severity = ''MEDIUM'', detail = ''Runtime socket created args='' @ a @ '' kwargs='' @ k\<rparr>]"
| "interceptor_log (Socket_connect a k) =
     [\<lparr>severity = ''HIGH'', detail = ''Runtime socket connect blocked args='' @ a @ '' kwargs='' @ k\<rparr>]"
| "interceptor_log (Socket_send a k) =
     [\<lparr>severity = ''MEDIUM'', detail = ''Runtime socket send blocked args='' @ a @ '' kwargs='' @ k\<rparr>]"
| "interceptor_log (Socket_recv a k) =
     [\<lparr>severity = ''MEDIUM'', detail = ''Runtime socket recv blocked args='' @ a @ '' kwargs='' @ k\<rparr>]"
| "interceptor_log Socket_close = []"
| "interceptor_log (Direct_log sev d) = [\<lparr>severity = sev, detail = d\<rparr>]"

text \<open>
  An exception raised by the module: \<open>exc.__class__.__name__\<close>, \<open>str(exc)\<close> (\<open>None\<close>
  when \<open>__str__\<close> itself raises), and whether it is an instance of \<open>Exception\<close>
  (\<open>SystemExit\<close>, \<open>KeyboardInterrupt\<close> and \<open>GeneratorExit\<close> derive from
  \<open>BaseException\<close> only). The execution of the module's top-level code,
  \<open>spec.loader.exec_module(module)\<close>, is what the interpreter makes of the scanned file:
  the calls that reach \<open>log\<close>, and how the execution ends.
\<close>

record py_exception =
  class_name :: string
  exc_str :: "string option"
  is_Exception :: bool

datatype ending = Returned | Raised py_exception | Not_finished

record module_run =
  calls :: "intercepted list"
  ending :: ending

section \<open>The world of one scan\<close>

text \<open>
  What lies outside the program during one call of \<open>scan_custom_node\<close>:
  \<open>os.path.abspath\<close>, \<open>os.path.isfile\<close>, the reading of a file (the text, or the
  \<open>str()\<close> of the \<open>OSError\<close>), the run of bandit on a path, the value drawn by
  \<open>uuid.uuid4().hex\<close>, whether \<open>spec_from_file_location(module_name, node_path)\<close>
  gives a spec with a loader, the execution of the module under that name, the
  answer of \<open>process.is_alive()\<close> after \<open>process.join(DYNAMIC_TIMEOUT_SECONDS)\<close>, and
  what the queue hands over to the supervisor.

  The queue of \<open>multiprocessing\<close> is a pipe fed by a thread of the child: \<open>put\<close> appends
  to a buffer in the child, and only what the thread has written to the pipe can be read
  by the parent. Of the entries the worker has put, in order, \<open>get_nowait\<close> hands out a
  first part and then either raises \<open>Empty\<close> (\<open>Hands_over n\<close>: the first \<open>n\<close> entries
  were written, the rest, if any, was lost with the child) or blocks for ever on an entry
  that was written in part (\<open>Stuck_after n\<close>).
\<close>

datatype handover = Hands_over nat | Stuck_after nat

record world =
  abspath :: "string \<Rightarrow> string"
  isfile :: "string \<Rightarrow> bool"
  read_text :: "string \<Rightarrow> string + string"
  bandit :: "string \<Rightarrow> bandit_outcome"
  uuid4_hex :: string
  spec_found :: "string \<Rightarrow> string \<Rightarrow> bool"
  exec_module :: "string \<Rightarrow> string \<Rightarrow> module_run"
  is_alive :: "string \<Rightarrow> bool"
  transport :: "string \<Rightarrow> handover"

definition run_bandit :: "world \<Rightarrow> string \<Rightarrow> issue list" where
  "run_bandit W node_path =
     (case bandit W node_path of
        Bandit_missing exc \<Rightarrow> [\<lparr>severity = ''LOW'', detail = ''Bandit scan skipped: '' @ exc\<rparr>]
      | Bandit_ran findings failure \<Rightarrow>
          map bandit_issue findings
          @ (case failure of
               Some exc \<Rightarrow> [\<lparr>severity = ''LOW'', detail = ''Bandit scan failed: '' @ exc\<rparr>]
             | None \<Rightarrow> []))"

text \<open>
  \<open>_dynamic_import_worker\<close>: the entries it puts on the queue, in order. In the handler
  of \<open>except Exception\<close> the f-string renders \<open>str(exc)\<close>; when that raises, nothing is put.
\<close>

definition import_raised :: "string \<Rightarrow> string \<Rightarrow> issue" where
  "import_raised cls text =
     \<lparr>severity = ''LOW'', detail = ''Dynamic import raised '' @ cls @ '': '' @ text\<rparr>"

definition dynamic_import_worker :: "world \<Rightarrow> string \<Rightarrow> issue list" where
  "dynamic_import_worker W node_path =
     (let module_name = ''scan_target_'' @ uuid4_hex W
      in if \<not> spec_found W module_name node_path
         then [\<lparr>severity = ''MEDIUM'', detail = ''Dynamic analysis failed: unable to load module spec.''\<rparr>]
         else (let run = exec_module W module_name node_path
               in concat (map interceptor_log (calls run))
                  @ (case ending run of
                       Raised exc \<Rightarrow>
                         if is_Exception exc
                         then (case exc_str exc of
                                 Some text \<Rightarrow> [import_raised (class_name exc) text]
                               | None \<Rightarrow> [])
                         else []
                     | _ \<Rightarrow> [])))"

text \<open>
  \<open>_run_dynamic_analysis\<close>: the calls on the process, and the issues returned, or
  \<open>None\<close> when the loop over \<open>queue.get_nowait()\<close> never ends. The channel is the list
  of the entries the worker has put and what the queue hands over of it.
\<close>

datatype process_action = Start | Join nat | Terminate

definition DYNAMIC_TIMEOUT_SECONDS :: nat where
  "DYNAMIC_TIMEOUT_SECONDS = 5"

definition timed_out :: issue where
  "timed_out = \<lparr>severity = ''HIGH'', detail = ''Dynamic analysis timed out during module import.''\<rparr>"

type_synonym channel = "issue list \<times> handover"

datatype fetched = Entry issue channel | Empty | Blocks

fun get_nowait :: "channel \<Rightarrow> fetched" where
  "get_nowait (entry # queue, Hands_over (Suc n)) = Entry entry (queue, Hands_over n)"
| "get_nowait (entry # queue, Stuck_after (Suc n)) = Entry entry (queue, Stuck_after n)"
| "get_nowait (entry # queue, Stuck_after 0) = Blocks"
| "get_nowait (queue, h) = Empty"

function drain :: "channel \<Rightarrow> issue list \<Rightarrow> issue list option" where
  "drain queue found =
     (case get_nowait queue of
        Empty \<Rightarrow> Some found
      | Blocks \<Rightarrow> None
      | Entry entry queue' \<Rightarrow> drain queue' (found @ [entry]))"
  by pat_completeness auto
termination
  by (relation "measure (\<lambda>(queue, found). length (fst queue))") (auto elim: get_nowait.elims)

declare drain.simps [simp del]

definition run_dynamic_analysis :: "world \<Rightarrow> string \<Rightarrow> process_action list \<times> issue list option" where
  "run_dynamic_analysis W node_path =
     (let issues = [];
          queue = (dynamic_import_worker W node_path, transport W node_path);
          actions = [Start, Join DYNAMIC_TIMEOUT_SECONDS];
          (actions, issues) = (if is_alive W node_path
                               then (actions @ [Terminate, Join 1], issues @ [timed_out])
                               else (actions, issues))
      in (actions, drain queue issues))"

section \<open>The orchestrator\<close>

text \<open>
  \<open>scan_custom_node\<close>, with the engines it calls listed in call order beside the
  outcome: the result returned, the exception of the parser that leaves \<open>_static_scan\<close>
  and then \<open>scan_custom_node\<close>, or no return when the sandbox step never ends.
\<close>

datatype engine = Linter_adapter | Static_engine | Sandbox_runtime

definition scan_custom_node_run :: "pylib \<Rightarrow> world \<Rightarrow> string \<Rightarrow> engine list \<times> scan_result outcome" where
  "scan_custom_node_run L W node_path =
     (let abs_path = abspath W node_path
      in if \<not> isfile W abs_path
         then ([], Returns \<lparr>file_path = abs_path,
                    issues = [\<lparr>severity = ''HIGH'', detail = ''Node path does not exist or is not a file.''\<rparr>],
                    secure = False\<rparr>)
         else (case read_text W abs_path of
                 Inl exc \<Rightarrow>
                   ([], Returns \<lparr>file_path = abs_path,
                         issues = [\<lparr>severity = ''HIGH'', detail = ''Failed to read file: '' @ exc\<rparr>],
                         secure = False\<rparr>)
               | Inr source \<Rightarrow>
                   (let issues = [] @ run_bandit W abs_path
                    in case static_scan L source abs_path of
                         Inl e \<Rightarrow> ([Linter_adapter, Static_engine], Raises e)
                       | Inr found \<Rightarrow>
                           (let issues = issues @ found
                            in case snd (run_dynamic_analysis W abs_path) of
                                 None \<Rightarrow> ([Linter_adapter, Static_engine, Sandbox_runtime], Hangs)
                               | Some entries \<Rightarrow>
                                   (let issues = issues @ entries;
                                        secure = (\<not> list_ex (\<lambda>issue. severity issue \<in> {''HIGH'', ''MEDIUM''})
                                                           issues)
                                    in ([Linter_adapter, Static_engine, Sandbox_runtime],
                                        Returns \<lparr>file_path = abs_path, issues = issues, secure = secure\<rparr>))))))"

definition scan_custom_node :: "pylib \<Rightarrow> world \<Rightarrow> string \<Rightarrow> scan_result outcome" where
  "scan_custom_node L W node_path = snd (scan_custom_node_run L W node_path)"

definition engines_called :: "pylib \<Rightarrow> world \<Rightarrow> string \<Rightarrow> engine list" where
  "engines_called L W node_path = fst (scan_custom_node_run L W node_path)"

section \<open>What the static scan is to report\<close>







section \<open>Example scans\<close>

text \<open>
  A library in which no pattern matches and the parser gives the answer \<open>r\<close>. The lines
  of the example files that are scanned with it hold no URL, no address, no long token
  and none of the flagged words, so this is how the patterns of the source answer on them.
\<close>

definition quiet_lib :: "parse_result \<Rightarrow> pylib" where
  "quiet_lib r =
     \<lparr>PIP_INSTALL_RE = (\<lambda>text. False), BASE64_RE = (\<lambda>text. False),
      OBFUSCATED_VAR_RE = (\<lambda>text. None), URL_RE = (\<lambda>text. None), IP_RE = (\<lambda>text. None),
      PIP_ARGS_RE = (\<lambda>text. False), DISCORD_WEBHOOK_RE = (\<lambda>text. False),
      STRATUM_RE = (\<lambda>text. False), MINING_POOL_RE = (\<lambda>text. False),
      EVAL_LINE_RE = (\<lambda>text. False), EXEC_LINE_RE = (\<lambda>text. False),
      OS_SYSTEM_LINE_RE = (\<lambda>text. False), POPEN_LINE_RE = (\<lambda>text. False),
      RUN_CALL_LINE_RE = (\<lambda>text. False), ast_parse = (\<lambda>source filename. r)\<rparr>"

text \<open>
  A world with one file, \<open>/nodes/node.py\<close>, of the given text; the working directory is
  \<open>/nodes\<close>, bandit is not installed, and the module runs as \<open>run\<close> says whatever
  name it is given. \<open>alive\<close> is the answer of \<open>is_alive()\<close> at the end of the budget,
  \<open>h\<close> what the queue hands over.
\<close>

definition bandit_absent :: string where
  "bandit_absent = ''No module named '' @ [CHR 0x27] @ ''bandit'' @ [CHR 0x27]"

definition node_world :: "string \<Rightarrow> module_run \<Rightarrow> bool \<Rightarrow> handover \<Rightarrow> world" where
  "node_world source run alive h =
     \<lparr>abspath = (\<lambda>p. ''/nodes/'' @ p),
      isfile = (\<lambda>p. p = ''/nodes/node.py''),
      read_text = (\<lambda>p. Inr source),
      bandit = (\<lambda>p. Bandit_missing bandit_absent),
      uuid4_hex = ''3f2b8c1d9e4a4f6fb0a1c2d3e4f50617'',
      spec_found = (\<lambda>module_name p. True),
      exec_module = (\<lambda>module_name p. run),
      is_alive = (\<lambda>p. alive),
      transport = (\<lambda>p. h)\<rparr>"

text \<open>The file \<open>import socket\<close>: the module \<open>Module(body=[Import(names=[alias('socket')])])\<close>,
  whose execution calls no interceptor and returns.\<close>

definition socket_lib :: pylib where
  "socket_lib = quiet_lib (Tree (Other [Import [''socket''] 1]))"

definition socket_world :: world where
  "socket_world = node_world ''import socket'' \<lparr>calls = [], ending = Returned\<rparr> False (Hands_over 0)"

text \<open>
  The file that calls \<open>os.system(str(i) + "x" * 3900)\<close> for \<open>i\<close> from 0 to 19 and then
  runs \<open>while True: pass\<close>: twenty entries of about 4 KB are put, the pipe takes the
  first sixteen, and the loop outlives the budget.
\<close>

definition long_call :: "nat \<Rightarrow> intercepted" where
  "long_call i =
     Os_system (''('' @ [CHR 0x27] @ str_nat i @ replicate 3900 (CHR ''x'') @ [CHR 0x27] @ '',)'') ''{}''"

definition flooding_source :: string where
  "flooding_source =
     ''import os'' @ [CHR 0x0A]
     @ ''for i in range(20):'' @ [CHR 0x0A]
     @ ''    os.system(str(i) + \"x\" * 3900)'' @ [CHR 0x0A]"

definition flooding_world :: world where
  "flooding_world =
     node_world (flooding_source @ ''while True:'' @ [CHR 0x0A] @ ''    pass'')
       \<lparr>calls = map long_call [0..<20], ending = Not_finished\<rparr> True (Hands_over 16)"

text \<open>The file \<open>raise ValueError("bad config")\<close> and the file
  \<open>raise SystemExit("bad config")\<close>.\<close>

definition value_error :: py_exception where
  "value_error = \<lparr>class_name = ''ValueError'', exc_str = Some ''bad config'', is_Exception = True\<rparr>"




text \<open>
  The file that makes the twenty calls above and then runs \<open>raise ValueError("bad config")\<close>:
  the worker puts its entry for the exception behind the twenty, the child cannot leave
  while the pipe is full, and is still alive at the end of the budget.
\<close>

definition flooding_raise_world :: world where
  "flooding_raise_world =
     node_world (flooding_source @ ''raise ValueError(\"bad config\")'')
       \<lparr>calls = map long_call [0..<20], ending = Raised value_error\<rparr> True (Hands_over 16)"








text \<open>The file \<open>f().requests.get(u)\<close>: the base of the attribute chain is a call.\<close>

definition chained_call :: node where
  "chained_call =
     Call (Attribute (Attribute (Call (Name ''f'') [] [] 1) ''requests'') ''get'') [Name ''u''] [] 1"

definition chained_lib :: pylib where
  "chained_lib = quiet_lib (Tree (Other [Other [chained_call]]))"

text \<open>A file that holds a NUL character: the parser raises a \<open>SyntaxError\<close> whose
  \<open>lineno\<close> is \<open>None\<close>.\<close>

definition null_bytes :: syntax_error where
  "null_bytes = \<lparr>msg = ''source code string cannot contain null bytes'', lineno = None\<rparr>"

definition nul_lib :: pylib where
  "nul_lib = quiet_lib (Syntax_error null_bytes)"









section \<open>Emissions of the static scan\<close>

text \<open>
  The passes of the static scan change the state through \<open>add_issue\<close> only. A state
  transformer is an \<open>emitter\<close> of a class \<open>A\<close> of calls when it is a fixed sequence of
  \<open>add_issue\<close> calls whose arguments are all in \<open>A\<close>. \<open>static_emission\<close> is the
  class of the calls of the tree walk and of the line scan: a line number is given, and the
  detail is that of a risky import with the severity of the table, or a text that starts
  neither like an import detail nor like a parse failure. A state is \<open>consistent\<close> when
  \<open>seen\<close> holds the keys of \<open>issues\<close> and no issue is listed twice.
\<close>

definition emit :: "(string \<times> string \<times> int option) list \<Rightarrow> scan_state \<Rightarrow> scan_state" where
  "emit es st = fold (\<lambda>(sev, d, line). add_issue sev d line) es st"

definition emitter :: "(string \<Rightarrow> string \<Rightarrow> int option \<Rightarrow> bool) \<Rightarrow> (scan_state \<Rightarrow> scan_state) \<Rightarrow> bool" where
  "emitter A f = (\<exists>es. (\<forall>e \<in> set es. A (fst e) (fst (snd e)) (snd (snd e))) \<and> f = emit es)"

definition key_of :: "issue \<Rightarrow> string \<times> string" where
  "key_of i = (severity i, detail i)"


definition plain_detail :: "string \<Rightarrow> bool" where
  "plain_detail d = (2 \<le> length d \<and> hd d \<noteq> CHR ''F'' \<and> take 2 d \<noteq> ''Im'')"

definition static_emission :: "string \<Rightarrow> string \<Rightarrow> int option \<Rightarrow> bool" where
  "static_emission sev d line =
     (line \<noteq> None
      \<and> ((\<exists>m. map_of RISKY_IMPORTS m = Some sev \<and> d = import_detail m) \<or> plain_detail d))"


definition parse_failure_issue :: "syntax_error \<Rightarrow> issue" where
  "parse_failure_issue exc =
     \<lparr>severity = ''MEDIUM'', detail = with_line (parse_failure_detail exc) (lineno exc)\<rparr>"



section \<open>Evaluation of the examples\<close>

lemma drain_hands_over: "drain (queue, Hands_over n) found = Some (found @ take n queue)"
proof (induction queue arbitrary: n found)
  case Nil
  show ?case by (simp add: drain.simps)
next
  case (Cons entry queue)
  show ?case
    by (cases n) (simp_all add: drain.simps [of "(entry # queue, _)"] Cons.IH)
qed

lemma drain_stuck_after:
  "drain (queue, Stuck_after n) found = (if n < length queue then None else Some (found @ queue))"
proof (induction queue arbitrary: n found)
  case Nil
  show ?case by (simp add: drain.simps)
next
  case (Cons entry queue)
  show ?case
    by (cases n) (simp_all add: drain.simps [of "(entry # queue, _)"] Cons.IH)
qed

lemmas static_eval =
  static_scan_def quiet_lib_def splitlines_def is_line_boundary_def tree_walk_def line_scan_def
  scan_line_def apply_patterns_def MALICIOUS_INDICATORS_def DANGEROUS_LINE_PATTERNS_def
  flag_import_def RISKY_IMPORTS_def DANGEROUS_CALLS_def NETWORK_CALL_PREFIXES_def
  add_issue_def with_line_def str_int_def str_nat.simps digit_char_def import_detail_def
  network_call_detail_def split_dot_first_def extract_urls_from_call_def call_invokes_pip_def
  lower_def lower_char_def parse_failure_detail_def Let_def

lemmas world_eval =
  node_world_def bandit_absent_def run_bandit_def run_dynamic_analysis_def
  dynamic_import_worker_def drain_hands_over timed_out_def import_raised_def
  DYNAMIC_TIMEOUT_SECONDS_def blocked_call_def blocked_network_def session_request_def str_of_def

lemmas scan_eval = scan_custom_node_def engines_called_def scan_custom_node_run_def

lemma socket_scan:
  "scan_custom_node socket_lib socket_world ''node.py'' =
     Returns \<lparr>file_path = ''/nodes/node.py'',
              issues = [\<lparr>severity = ''LOW'', detail = ''Bandit scan skipped: '' @ bandit_absent\<rparr>,
                        \<lparr>severity = ''MEDIUM'', detail = ''Imports risky module 'socket'. (line 1)''\<rparr>],
              secure = False\<rparr>"
  by (simp add: scan_eval socket_lib_def socket_world_def world_eval static_eval)

section \<open>The verdict\<close>

text \<open>
  C1. In every result that \<open>scan_custom_node\<close> returns, on each of its three return
  paths, \<open>secure\<close> is true exactly when no issue of \<open>issues\<close> has severity \<open>MEDIUM\<close>
  or \<open>HIGH\<close>.
\<close>

theorem scan_secure_iff:
  "scan_custom_node L W node_path = Returns r \<Longrightarrow>
     secure r = (\<forall>i \<in> set (issues r). severity i \<noteq> ''MEDIUM'' \<and> severity i \<noteq> ''HIGH'')"
  unfolding scan_custom_node_def scan_custom_node_run_def
  by (auto simp: Let_def list_ex_iff split: sum.splits option.splits if_splits)

text \<open>
  The scan of \<open>import socket\<close> returns a result that holds a \<open>MEDIUM\<close> issue and is
  not secure.
\<close>

theorem scan_secure_iff_witness:
  "\<exists>r. scan_custom_node socket_lib socket_world ''node.py'' = Returns r
      \<and> \<not> secure r \<and> (\<exists>i \<in> set (issues r). severity i = ''MEDIUM'')"
  using scan_secure_iff [OF socket_scan]
  by (simp add: socket_scan)

section \<open>A path that is not a file\<close>

text \<open>
  C2. When the resolved path is not an existing regular file, \<open>scan_custom_node\<close> returns
  the result that holds the resolved absolute path, exactly one issue, of severity
  \<open>HIGH\<close>, and \<open>secure = False\<close>; none of the three engines is called.
\<close>

theorem missing_file_result:
  "\<not> isfile W (abspath W node_path) \<Longrightarrow>
     scan_custom_node L W node_path =
       Returns \<lparr>file_path = abspath W node_path,
                issues = [\<lparr>severity = ''HIGH'', detail = ''Node path does not exist or is not a file.''\<rparr>],
                secure = False\<rparr>
     \<and> engines_called L W node_path = []"
  by (simp add: scan_eval)

text \<open>
  The path \<open>gone.py\<close> in a directory that holds \<open>node.py\<close> only.
\<close>

theorem missing_file_result_witness:
  "\<not> isfile socket_world (abspath socket_world ''gone.py'')
   \<and> scan_custom_node socket_lib socket_world ''gone.py'' =
       Returns \<lparr>file_path = ''/nodes/gone.py'',
                issues = [\<lparr>severity = ''HIGH'', detail = ''Node path does not exist or is not a file.''\<rparr>],
                secure = False\<rparr>
   \<and> engines_called socket_lib socket_world ''gone.py'' = []"
proof -
  have missing: "\<not> isfile socket_world (abspath socket_world ''gone.py'')"
    by (simp add: socket_world_def node_world_def)
  have "abspath socket_world ''gone.py'' = ''/nodes/gone.py''"
    by (simp add: socket_world_def node_world_def)
  with missing missing_file_result [OF missing, of socket_lib] show ?thesis
    by simp
qed

section \<open>The time budget of the sandbox\<close>

text \<open>
  The twenty entries that the flooding module puts, and the last of them against what
  the first sixteen and the time-out issue are.
\<close>

lemma flooding_calls:
  "concat (map interceptor_log (map long_call [0..<20])) =
     map (\<lambda>i. hd (interceptor_log (long_call i))) [0..<20]"
  by (simp add: long_call_def upt_rec [of _ "numeral k" for k])

lemma flooding_puts:
  "dynamic_import_worker flooding_world ''/nodes/node.py'' =
     map (\<lambda>i. hd (interceptor_log (long_call i))) [0..<20]"
  unfolding flooding_calls [symmetric]
  by (simp add: flooding_world_def node_world_def dynamic_import_worker_def)

lemma padding_starts:
  "(replicate 3900 (CHR ''x'') @ r = c # s) = (c = CHR ''x'' \<and> replicate 3899 (CHR ''x'') @ r = s)"
proof -
  have "replicate 3900 (CHR ''x'') = CHR ''x'' # replicate 3899 (CHR ''x'')"
    using replicate_Suc [of 3899 "CHR ''x''"] by simp
  then show ?thesis
    by auto
qed

lemma last_put_lost:
  "dynamic_import_worker flooding_world ''/nodes/node.py'' ! 19
     \<notin> set (timed_out # take 16 (dynamic_import_worker flooding_world ''/nodes/node.py''))"
  by (simp add: flooding_puts upt_rec [of _ "numeral k" for k] long_call_def blocked_call_def
        timed_out_def str_nat.simps digit_char_def padding_starts)

text \<open>
  C3 says that when the process is still alive at the end of the budget of 5 seconds it
  is terminated, one \<open>HIGH\<close> time-out issue is recorded, and every entry put on the queue
  before the termination is in the issues returned. On the file that calls
  \<open>os.system(str(i) + "x" * 3900)\<close> twenty times and then loops for ever the code does
  the first two and not the third: the process is alive after \<open>join(5)\<close>, it is
  terminated, and the issues returned are the time-out issue and the first sixteen of
  the twenty entries that were put; the entry of the twentieth call is not among them.
\<close>

theorem timeout_loses_queued_entries:
  "is_alive flooding_world ''/nodes/node.py''
   \<and> length (dynamic_import_worker flooding_world ''/nodes/node.py'') = 20
   \<and> run_dynamic_analysis flooding_world ''/nodes/node.py'' =
       ([Start, Join 5, Terminate, Join 1],
        Some (timed_out # take 16 (dynamic_import_worker flooding_world ''/nodes/node.py'')))
   \<and> dynamic_import_worker flooding_world ''/nodes/node.py'' ! 19
       \<notin> set (timed_out # take 16 (dynamic_import_worker flooding_world ''/nodes/node.py''))"
proof -
  have alive: "is_alive flooding_world ''/nodes/node.py''"
    and handed: "transport flooding_world ''/nodes/node.py'' = Hands_over 16"
    by (simp_all add: flooding_world_def node_world_def)
  have run: "run_dynamic_analysis flooding_world ''/nodes/node.py'' =
       ([Start, Join 5, Terminate, Join 1],
        Some (timed_out # take 16 (dynamic_import_worker flooding_world ''/nodes/node.py'')))"
    by (simp add: run_dynamic_analysis_def alive handed drain_hands_over DYNAMIC_TIMEOUT_SECONDS_def)
  have put: "length (dynamic_import_worker flooding_world ''/nodes/node.py'') = 20"
    by (simp add: flooding_puts)
  from alive put run last_put_lost show ?thesis
    by (intro conjI)
qed

text \<open>
  When the termination leaves the seventeenth entry written in part, the loop over
  \<open>get_nowait\<close> reads sixteen entries and then waits for the rest of the seventeenth,
  which never comes: the sandbox step does not return.
\<close>

lemma partly_written_entry_blocks:
  "snd (run_dynamic_analysis (flooding_world\<lparr>transport := (\<lambda>p. Stuck_after 16)\<rparr>) ''/nodes/node.py'') = None"
proof -
  have "dynamic_import_worker (flooding_world\<lparr>transport := (\<lambda>p. Stuck_after 16)\<rparr>) ''/nodes/node.py'' =
      dynamic_import_worker flooding_world ''/nodes/node.py''"
    by (simp add: dynamic_import_worker_def Let_def)
  then show ?thesis
    by (simp add: run_dynamic_analysis_def drain_stuck_after flooding_puts Let_def split: prod.split)
qed

section \<open>The order of the issues\<close>

text \<open>
  Against C4 as stated: in the scan of \<open>import socket\<close> without bandit installed, the
  issues are the linter adapter's issue and then the static engine's, which is not the
  static engine's, then the linter adapter's, then the sandbox's.
\<close>

theorem static_first_counterexample:
  "scan_custom_node socket_lib socket_world ''node.py'' =
     Returns \<lparr>file_path = ''/nodes/node.py'',
              issues = [\<lparr>severity = ''LOW'', detail = ''Bandit scan skipped: '' @ bandit_absent\<rparr>,
                        \<lparr>severity = ''MEDIUM'', detail = ''Imports risky module 'socket'. (line 1)''\<rparr>],
              secure = False\<rparr>
   \<and> static_scan socket_lib ''import socket'' ''/nodes/node.py'' =
       Inr [\<lparr>severity = ''MEDIUM'', detail = ''Imports risky module 'socket'. (line 1)''\<rparr>]
   \<and> run_bandit socket_world ''/nodes/node.py'' =
       [\<lparr>severity = ''LOW'', detail = ''Bandit scan skipped: '' @ bandit_absent\<rparr>]
   \<and> snd (run_dynamic_analysis socket_world ''/nodes/node.py'') = Some []
   \<and> [\<lparr>severity = ''LOW'', detail = ''Bandit scan skipped: '' @ bandit_absent\<rparr>,
       \<lparr>severity = ''MEDIUM'', detail = ''Imports risky module 'socket'. (line 1)''\<rparr>]
      \<noteq> [\<lparr>severity = ''MEDIUM'', detail = ''Imports risky module 'socket'. (line 1)''\<rparr>]
        @ [\<lparr>severity = ''LOW'', detail = ''Bandit scan skipped: '' @ bandit_absent\<rparr>]
        @ []"
  by (simp add: socket_scan)
     (simp add: socket_lib_def socket_world_def world_eval static_eval)

text \<open>
  C4, amended. For every scan of a file that exists and is read, in which the static
  scan and the sandbox step return, the result is returned and its issues are the linter
  adapter's issues first, then the static engine's, then the sandbox's, and the engines
  are called in that order.
\<close>

theorem linter_first:
  "isfile W (abspath W node_path) \<Longrightarrow> read_text W (abspath W node_path) = Inr source \<Longrightarrow>
   static_scan L source (abspath W node_path) = Inr found \<Longrightarrow>
   snd (run_dynamic_analysis W (abspath W node_path)) = Some entries \<Longrightarrow>
     (\<exists>r. scan_custom_node L W node_path = Returns r
        \<and> issues r = run_bandit W (abspath W node_path) @ found @ entries)
     \<and> engines_called L W node_path = [Linter_adapter, Static_engine, Sandbox_runtime]"
  by (simp add: scan_eval Let_def)

text \<open>
  The scan of \<open>import socket\<close>: one issue of the linter adapter, one of the static
  engine, none of the sandbox.
\<close>

theorem linter_first_witness:
  "isfile socket_world (abspath socket_world ''node.py'')
   \<and> read_text socket_world (abspath socket_world ''node.py'') = Inr ''import socket''
   \<and> (\<exists>r. scan_custom_node socket_lib socket_world ''node.py'' = Returns r
         \<and> issues r =
             [\<lparr>severity = ''LOW'', detail = ''Bandit scan skipped: '' @ bandit_absent\<rparr>]
             @ [\<lparr>severity = ''MEDIUM'', detail = ''Imports risky module 'socket'. (line 1)''\<rparr>]
             @ [])"
proof -
  have f: "isfile socket_world (abspath socket_world ''node.py'')"
    by (simp add: socket_world_def node_world_def)
  have r: "read_text socket_world (abspath socket_world ''node.py'') = Inr ''import socket''"
    by (simp add: socket_world_def node_world_def)
  have a: "abspath socket_world ''node.py'' = ''/nodes/node.py''"
    by (simp add: socket_world_def node_world_def)
  have b: "run_bandit socket_world ''/nodes/node.py'' =
      [\<lparr>severity = ''LOW'', detail = ''Bandit scan skipped: '' @ bandit_absent\<rparr>]"
    by (simp add: socket_world_def world_eval)
  have s: "static_scan socket_lib ''import socket'' (abspath socket_world ''node.py'') =
      Inr [\<lparr>severity = ''MEDIUM'', detail = ''Imports risky module 'socket'. (line 1)''\<rparr>]"
    by (simp add: socket_lib_def static_eval)
  have d: "snd (run_dynamic_analysis socket_world (abspath socket_world ''node.py'')) = Some []"
    by (simp add: socket_world_def world_eval)
  from linter_first [OF f r s d] f r show ?thesis
    by (simp only: a b simp_thms)
qed

section \<open>Exceptions of the scanned module\<close>




text \<open>
  The module that makes the twenty long calls before \<open>raise ValueError("bad config")\<close>:
  the worker puts its entry for the exception last, the queue hands over the first
  sixteen entries, and the entry is not in what the sandbox step returns.
\<close>

lemma flooding_raise_puts:
  "dynamic_import_worker flooding_raise_world ''/nodes/node.py'' =
     map (\<lambda>i. hd (interceptor_log (long_call i))) [0..<20]
     @ [\<lparr>severity = ''LOW'', detail = ''Dynamic import raised ValueError: bad config''\<rparr>]"
  unfolding flooding_calls [symmetric]
  by (simp add: flooding_raise_world_def node_world_def dynamic_import_worker_def value_error_def
        import_raised_def)

lemma flooded_exception_lost:
  "last (dynamic_import_worker flooding_raise_world ''/nodes/node.py'') =
     \<lparr>severity = ''LOW'', detail = ''Dynamic import raised ValueError: bad config''\<rparr>
   \<and> snd (run_dynamic_analysis flooding_raise_world ''/nodes/node.py'') =
       Some (timed_out # take 16 (dynamic_import_worker flooding_raise_world ''/nodes/node.py''))
   \<and> \<lparr>severity = ''LOW'', detail = ''Dynamic import raised ValueError: bad config''\<rparr>
       \<notin> set (timed_out # take 16 (dynamic_import_worker flooding_raise_world ''/nodes/node.py''))"
proof -
  have alive: "is_alive flooding_raise_world ''/nodes/node.py''"
    and handed: "transport flooding_raise_world ''/nodes/node.py'' = Hands_over 16"
    by (simp_all add: flooding_raise_world_def node_world_def)
  have run: "snd (run_dynamic_analysis flooding_raise_world ''/nodes/node.py'') =
       Some (timed_out # take 16 (dynamic_import_worker flooding_raise_world ''/nodes/node.py''))"
    by (simp add: run_dynamic_analysis_def alive handed drain_hands_over)
  have lost: "\<lparr>severity = ''LOW'', detail = ''Dynamic import raised ValueError: bad config''\<rparr>
       \<notin> set (timed_out # take 16 (dynamic_import_worker flooding_raise_world ''/nodes/node.py''))"
    by (simp add: flooding_raise_puts upt_rec [of _ "numeral k" for k] long_call_def blocked_call_def
          timed_out_def)
  from run lost show ?thesis
    by (simp add: flooding_raise_puts)
qed

section \<open>Two scans of one file\<close>




section \<open>What the static scan emits\<close>

text \<open>
  Each pass of the static scan is an emitter of static emissions, so that the state
  stays consistent, a property of the issues needs a proof for the emissions only, and
  a first issue that no emission can equal stays in front. The line scan is moreover
  the fixed list of its emissions: the issues of the signatures that match, line by
  line, with later duplicates dropped.
\<close>

lemma emitter_id: "emitter A (\<lambda>st. st)"
  unfolding emitter_def by (rule exI [of _ "[]"]) (simp add: emit_def fun_eq_iff)

lemma emitter_add: "A sev d line \<Longrightarrow> emitter A (add_issue sev d line)"
  unfolding emitter_def by (rule exI [of _ "[(sev, d, line)]"]) (simp add: emit_def fun_eq_iff)

lemma emitter_comp:
  assumes "emitter A f" and "emitter A g"
  shows "emitter A (\<lambda>st. g (f st))"
proof -
  from assms obtain es es' where
    es: "\<forall>e \<in> set es. A (fst e) (fst (snd e)) (snd (snd e))" "f = emit es" and
    es': "\<forall>e \<in> set es'. A (fst e) (fst (snd e)) (snd (snd e))" "g = emit es'"
    unfolding emitter_def by blast
  have "(\<lambda>st. g (f st)) = emit (es @ es')"
    by (simp add: es es' emit_def fun_eq_iff)
  moreover have "\<forall>e \<in> set (es @ es'). A (fst e) (fst (snd e)) (snd (snd e))"
    using es es' by auto
  ultimately show ?thesis
    unfolding emitter_def by blast
qed

lemma emitter_fold:
  "(\<And>x. x \<in> set xs \<Longrightarrow> emitter A (h x)) \<Longrightarrow> emitter A (fold h xs)"
proof (induction xs)
  case Nil
  show ?case by (simp add: emitter_id id_def)
next
  case (Cons x xs)
  have "emitter A (h x)" and "emitter A (fold h xs)"
    using Cons by simp_all
  then have "emitter A (\<lambda>st. fold h xs (h x st))"
    by (rule emitter_comp)
  then show ?case
    by (simp add: comp_def)
qed


lemma add_issue_set:
  "set (fst (add_issue sev d line st)) \<subseteq> insert \<lparr>severity = sev, detail = with_line d line\<rparr> (set (fst st))"
  by (auto simp: add_issue_def Let_def)



lemma emit_holds:
  assumes "\<forall>e \<in> set es. Q \<lparr>severity = fst e, detail = with_line (fst (snd e)) (snd (snd e))\<rparr>"
    and "\<forall>i \<in> set (fst st). Q i"
  shows "\<forall>i \<in> set (fst (emit es st)). Q i"
  using assms unfolding emit_def
proof (induction es arbitrary: st)
  case Nil
  then show ?case by simp
next
  case (Cons e es)
  obtain sev d line where e: "e = (sev, d, line)"
    by (cases e) auto
  have "\<forall>i \<in> set (fst (add_issue sev d line st)). Q i"
    using add_issue_set [of sev d line st] Cons.prems e by auto
  with Cons.IH [of "add_issue sev d line st"] Cons.prems(1) show ?case
    by (simp add: e)
qed

lemma emitter_holds:
  assumes "emitter A f"
    and "\<And>sev d line. A sev d line \<Longrightarrow> Q \<lparr>severity = sev, detail = with_line d line\<rparr>"
    and "\<forall>i \<in> set (fst st). Q i"
  shows "\<forall>i \<in> set (fst (f st)). Q i"
proof -
  from assms(1) obtain es where
    es: "\<forall>e \<in> set es. A (fst e) (fst (snd e)) (snd (snd e))" "f = emit es"
    unfolding emitter_def by blast
  have "\<forall>e \<in> set es. Q \<lparr>severity = fst e, detail = with_line (fst (snd e)) (snd (snd e))\<rparr>"
    using es(1) assms(2) by blast
  from emit_holds [OF this assms(3)] show ?thesis
    by (simp add: es(2))
qed




lemma emitter_plain:
  "plain_detail d \<Longrightarrow> emitter static_emission (add_issue sev d (Some n))"
  by (rule emitter_add) (simp add: static_emission_def)

lemma emitter_flag_import: "emitter static_emission (flag_import m l)"
proof -
  have "flag_import m l =
      (case map_of RISKY_IMPORTS m of
         Some sev \<Rightarrow> if sev \<noteq> [] then add_issue sev (import_detail m) (Some l) else (\<lambda>st. st)
       | None \<Rightarrow> (\<lambda>st. st))"
    by (auto simp: fun_eq_iff flag_import_def split: option.splits)
  moreover have "emitter static_emission \<dots>"
    by (auto split: option.splits intro!: emitter_id emitter_add simp: static_emission_def)
  ultimately show ?thesis
    by simp
qed

lemma dangerous_call_plain:
  "map_of DANGEROUS_CALLS c = Some (sev, message) \<Longrightarrow> plain_detail message"
  by (auto simp: DANGEROUS_CALLS_def plain_detail_def split: if_splits)

lemma emitter_if:
  "(c \<Longrightarrow> emitter A (\<lambda>st. f st)) \<Longrightarrow> (\<not> c \<Longrightarrow> emitter A (\<lambda>st. g st)) \<Longrightarrow>
     emitter A (\<lambda>st. if c then f st else g st)"
  by (cases c) simp_all

lemma emitter_case_option:
  "(opt = None \<Longrightarrow> emitter A (\<lambda>st. f st)) \<Longrightarrow> (\<And>x. opt = Some x \<Longrightarrow> emitter A (\<lambda>st. g x st)) \<Longrightarrow>
     emitter A (\<lambda>st. case opt of None \<Rightarrow> f st | Some x \<Rightarrow> g x st)"
  by (cases opt) simp_all

lemma emitter_ext: "(\<And>st. f st = g st) \<Longrightarrow> emitter A g \<Longrightarrow> emitter A f"
proof -
  assume "\<And>st. f st = g st"
  then have "f = g" by (simp add: fun_eq_iff)
  then show "emitter A g \<Longrightarrow> emitter A f" by simp
qed

lemma emitter_visit: "emitter static_emission (visit L n)"
proof (cases n)
  case (Import names l)
  have "visit L n = fold (\<lambda>name. flag_import (split_dot_first name) l) names"
    by (simp add: Import fun_eq_iff)
  then show ?thesis
    by (simp add: emitter_fold emitter_flag_import)
next
  case (ImportFrom m l)
  have "visit L n =
      (\<lambda>st. case m of
         None \<Rightarrow> st
       | Some mname \<Rightarrow> if mname \<noteq> [] then flag_import (split_dot_first mname) l st else st)"
    unfolding ImportFrom fun_eq_iff visit.simps by simp
  moreover have "emitter static_emission \<dots>"
    by (intro emitter_case_option emitter_if emitter_id emitter_flag_import)
  ultimately show ?thesis
    by simp
next
  case (Call f args kws l)
  define call_name where "call_name = full_name f"
  define s1 where "s1 =
      (\<lambda>st. case map_of DANGEROUS_CALLS call_name of
         None \<Rightarrow> st
       | Some (sev, message) \<Rightarrow> add_issue sev message (Some l) st)"
  define s2 where "s2 =
      (\<lambda>st1. if call_name \<in> set NETWORK_CALL_PREFIXES \<or> prefix ''urllib.'' call_name
       then fold (\<lambda>url. add_issue ''MEDIUM''
                                  (''Network call target appears in code: '' @ url @ ''.'') (Some l))
                     (extract_urls_from_call L (Call f args kws l))
                     (add_issue ''MEDIUM'' (network_call_detail call_name) (Some l) st1)
       else st1)"
  define s3 where "s3 =
      (\<lambda>st2. if call_name \<in> {''subprocess.run'', ''subprocess.call'', ''subprocess.Popen'', ''os.system''}
       then (if call_invokes_pip L (Call f args kws l)
             then add_issue ''HIGH'' ''Invokes pip install at runtime.'' (Some l) st2
             else st2)
       else st2)"
  have visit: "visit L n = (\<lambda>st. s3 (s2 (s1 st)))"
    unfolding Call fun_eq_iff visit.simps Let_def s1_def s2_def s3_def call_name_def
    by (rule allI) (rule refl)
  have e1: "emitter static_emission s1"
    unfolding s1_def
    by (rule emitter_case_option) (auto intro!: emitter_id emitter_plain dest: dangerous_call_plain)
  have "emitter static_emission
      (\<lambda>st1. fold (\<lambda>url. add_issue ''MEDIUM''
                                  (''Network call target appears in code: '' @ url @ ''.'') (Some l))
                     (extract_urls_from_call L (Call f args kws l))
                     (add_issue ''MEDIUM'' (network_call_detail call_name) (Some l) st1))"
    by (rule emitter_comp [OF emitter_plain emitter_fold [OF emitter_plain]])
       (simp_all add: plain_detail_def network_call_detail_def)
  then have e2: "emitter static_emission s2"
    unfolding s2_def
    by (intro emitter_if emitter_id)
  have e3: "emitter static_emission s3"
    unfolding s3_def
    by (intro emitter_if emitter_plain emitter_id) (simp add: plain_detail_def)
  have "emitter static_emission (\<lambda>st. s2 (s1 st))"
    by (rule emitter_comp [OF e1 e2])
  from emitter_comp [OF this e3] show ?thesis
    unfolding visit .
qed (rule emitter_ext [OF _ emitter_id], simp)+

lemma emitter_apply_patterns:
  assumes "\<And>p sev m. (p, sev, m) \<in> set table \<Longrightarrow> plain_detail m"
  shows "emitter static_emission (apply_patterns table line (Some n))"
proof -
  let ?h = "\<lambda>(pattern, sev, message) st. if pattern line then add_issue sev message (Some n) st else st"
  have "emitter static_emission (?h x)" if "x \<in> set table" for x
  proof -
    obtain p sev m where x: "x = (p, sev, m)"
      by (cases x) auto
    have "emitter static_emission (\<lambda>st. if p line then add_issue sev m (Some n) st else st)"
      using assms that x by (intro emitter_if emitter_plain emitter_id) auto
    then show ?thesis
      by (simp add: x)
  qed
  then have "emitter static_emission (fold ?h table)"
    by (rule emitter_fold)
  then show ?thesis
    by (rule emitter_ext [rotated]) (simp add: apply_patterns_def)
qed

lemma malicious_plain: "(p, sev, m) \<in> set (MALICIOUS_INDICATORS L) \<Longrightarrow> plain_detail m"
  by (auto simp: MALICIOUS_INDICATORS_def plain_detail_def)

lemma dangerous_line_plain: "(p, sev, m) \<in> set (DANGEROUS_LINE_PATTERNS L) \<Longrightarrow> plain_detail m"
  by (auto simp: DANGEROUS_LINE_PATTERNS_def plain_detail_def)

lemma emitter_scan_line: "emitter static_emission (scan_line L x)"
proof -
  obtain idx line where x: "x = (idx, line)"
    by (cases x) auto
  define n where "n = Some (int idx)"
  define t1 where "t1 =
      (\<lambda>st. if PIP_INSTALL_RE L line
             then add_issue ''HIGH'' ''Contains 'pip install' invocation string.'' n st
             else st)"
  define t2 where "t2 =
      (\<lambda>st1. if BASE64_RE L line
              then add_issue ''MEDIUM'' ''Large base64-like string found (possible obfuscation).'' n st1
              else st1)"
  define t3 where "t3 =
      (\<lambda>st2. case OBFUSCATED_VAR_RE L line of
                None \<Rightarrow> st2
              | Some group1 \<Rightarrow>
                  if list_ex isdigit group1
                  then add_issue ''LOW'' ''Unusually long variable name with digits (possible obfuscation).'' n st2
                  else st2)"
  define t4 where "t4 = (\<lambda>st3. apply_patterns (MALICIOUS_INDICATORS L) line n st3)"
  define t5a where "t5a =
      (\<lambda>st4. case URL_RE L line of
                None \<Rightarrow> st4
              | Some url \<Rightarrow> add_issue ''MEDIUM'' (''Hard-coded URL in network call: '' @ url @ ''.'') n st4)"
  define t5b where "t5b =
      (\<lambda>st'. case IP_RE L line of
                None \<Rightarrow> st'
              | Some ip \<Rightarrow> add_issue ''MEDIUM'' (''Hard-coded IP in network call: '' @ ip @ ''.'') n st')"
  define t5 where "t5 =
      (\<lambda>st4. if sublist ''requests.'' line \<or> sublist ''urllib'' line then t5b (t5a st4) else st4)"
  define t6 where "t6 = (\<lambda>st5. apply_patterns (DANGEROUS_LINE_PATTERNS L) line n st5)"
  have eq: "scan_line L x st = t6 (t5 (t4 (t3 (t2 (t1 st)))))" for st
    unfolding x scan_line_def prod.case Let_def t1_def t2_def t3_def t4_def t5_def t5a_def t5b_def t6_def n_def
    by (rule refl)
  have e1: "emitter static_emission t1"
    unfolding t1_def n_def by (intro emitter_if emitter_plain emitter_id) (simp add: plain_detail_def)
  have e2: "emitter static_emission t2"
    unfolding t2_def n_def by (intro emitter_if emitter_plain emitter_id) (simp add: plain_detail_def)
  have e3: "emitter static_emission t3"
    unfolding t3_def n_def
    by (intro emitter_case_option emitter_if emitter_plain emitter_id) (simp add: plain_detail_def)
  have e4: "emitter static_emission t4"
    unfolding t4_def n_def by (rule emitter_apply_patterns) (rule malicious_plain)
  have e5a: "emitter static_emission t5a"
    unfolding t5a_def n_def
    by (intro emitter_case_option emitter_plain emitter_id) (simp add: plain_detail_def)
  have e5b: "emitter static_emission t5b"
    unfolding t5b_def n_def
    by (intro emitter_case_option emitter_plain emitter_id) (simp add: plain_detail_def)
  have e5: "emitter static_emission t5"
    unfolding t5_def
    by (rule emitter_if) (rule emitter_comp [OF e5a e5b], rule emitter_id)
  have e6: "emitter static_emission t6"
    unfolding t6_def n_def by (rule emitter_apply_patterns) (rule dangerous_line_plain)
  note c = emitter_comp
  have "emitter static_emission (\<lambda>st. t6 (t5 (t4 (t3 (t2 (t1 st))))))"
    by (rule c [OF c [OF c [OF c [OF c [OF e1 e2] e3] e4] e5] e6])
  then show ?thesis
    by (rule emitter_ext [rotated]) (rule eq)
qed

lemma emitter_line_scan: "emitter static_emission (line_scan L lines)"
  by (rule emitter_ext [OF _ emitter_fold [of "enumerate 1 lines" static_emission "scan_line L"]])
     (simp_all add: line_scan_def emitter_scan_line)

lemma emitter_tree_walk: "emitter static_emission (tree_walk L tree)"
  by (rule emitter_ext [OF _ emitter_fold [of "walk [tree]" static_emission "visit L"]])
     (simp_all add: tree_walk_def emitter_visit)




lemma static_emission_suffix:
  assumes "static_emission sev d line"
  shows "\<exists>n. suffix ('' (line '' @ str_int n @ '')'') (with_line d line)"
proof -
  from assms obtain n where "line = Some n"
    by (auto simp: static_emission_def)
  then have "with_line d line = d @ ('' (line '' @ str_int n @ '')'')"
    by (simp add: with_line_def)
  then have "suffix ('' (line '' @ str_int n @ '')'') (with_line d line)"
    by (rule suffixI)
  then show ?thesis
    by blast
qed







lemma parse_failure_state:
  "add_issue ''MEDIUM'' (parse_failure_detail exc) (lineno exc) ([], {}) =
     ([parse_failure_issue exc], insert (key_of (parse_failure_issue exc)) {})"
  by (simp add: add_issue_def parse_failure_issue_def key_of_def Let_def)


lemma static_scan_parsed:
  "ast_parse L source node_path = Tree t \<Longrightarrow>
     static_scan L source node_path = Inr (fst (line_scan L (splitlines source) (tree_walk L t ([], {}))))"
  by (simp add: static_scan_def Let_def)

lemma static_scan_failed:
  "ast_parse L source node_path = Syntax_error exc \<Longrightarrow>
     static_scan L source node_path =
       Inr (fst (line_scan L (splitlines source)
              ([parse_failure_issue exc], insert (key_of (parse_failure_issue exc)) {})))"
  by (simp add: static_scan_def Let_def parse_failure_state)

lemma static_scan_raises:
  "ast_parse L source node_path = Parser_raises e \<Longrightarrow> static_scan L source node_path = Inl e"
  by (simp add: static_scan_def Let_def)




lemma static_scan_holds:
  assumes emitted: "\<And>sev d line. static_emission sev d line \<Longrightarrow> Q \<lparr>severity = sev, detail = with_line d line\<rparr>"
    and failed: "\<And>exc. ast_parse L source node_path = Syntax_error exc \<Longrightarrow> Q (parse_failure_issue exc)"
    and returned: "static_scan L source node_path = Inr found"
  shows "\<forall>i \<in> set found. Q i"
proof -
  have fin: "\<forall>i \<in> set (fst (line_scan L (splitlines source) st0)). Q i"
    if "\<forall>i \<in> set (fst st0). Q i" for st0
    using emitter_line_scan emitted that by (rule emitter_holds)
  show ?thesis
  proof (cases "ast_parse L source node_path")
    case (Syntax_error exc)
    have "\<forall>i \<in> set (fst ([parse_failure_issue exc], insert (key_of (parse_failure_issue exc)) {})). Q i"
      using failed [OF Syntax_error] by simp
    from fin [OF this] show ?thesis
      using returned by (simp add: static_scan_failed [OF Syntax_error])
  next
    case (Tree t)
    have "\<forall>i \<in> set (fst (([], {}) :: scan_state)). Q i"
      by simp
    with emitter_tree_walk emitted have "\<forall>i \<in> set (fst (tree_walk L t ([], {}))). Q i"
      by (rule emitter_holds)
    from fin [OF this] show ?thesis
      using returned by (simp add: static_scan_parsed [OF Tree])
  next
    case (Parser_raises e)
    then show ?thesis
      using returned by (simp add: static_scan_raises)
  qed
qed























section \<open>Repeated imports\<close>





section \<open>Callees without a root identifier\<close>

text \<open>
  Against C6 as stated: in \<open>f().requests.get(u)\<close> the attribute chain of the callee ends
  in a call, not in an identifier, and the static scan emits a network-call issue for it.
\<close>

theorem unrooted_call_counterexample:
  "\<not> rooted (Attribute (Attribute (Call (Name ''f'') [] [] 1) ''requests'') ''get'')
   \<and> static_scan chained_lib ''f().requests.get(u)'' ''/nodes/node.py'' =
       Inr [\<lparr>severity = ''MEDIUM'', detail = ''Network call via 'requests.get'. (line 1)''\<rparr>]"
  by (simp add: chained_lib_def chained_call_def static_eval)

text \<open>
  C6, amended. For every call expression whose callee is neither an identifier nor an
  attribute access (the callee is itself a call, a subscript, ...), the resolved name is
  empty and the walk emits no issue for that call: the state is unchanged. An attribute
  access on such a base resolves to the attribute name alone, which is then looked up
  like any other name.
\<close>

theorem unnamed_callee_skipped:
  "\<not> is_name_or_attribute f \<Longrightarrow>
     full_name f = [] \<and> visit L (Call f args kws l) st = st \<and> full_name (Attribute f a) = a"
  by (cases f) (simp_all add: DANGEROUS_CALLS_def NETWORK_CALL_PREFIXES_def)

text \<open>
  The call \<open>f()()\<close> is skipped; the callee \<open>f().eval\<close> resolves to \<open>eval\<close>.
\<close>

theorem unnamed_callee_skipped_witness:
  "\<not> is_name_or_attribute (Call (Name ''f'') [] [] 1)
   \<and> visit socket_lib (Call (Call (Name ''f'') [] [] 1) [] [] 1) ([], {}) = ([], {})
   \<and> full_name (Attribute (Call (Name ''f'') [] [] 1) ''eval'') = ''eval''"
proof -
  have callee: "\<not> is_name_or_attribute (Call (Name ''f'') [] [] 1)"
    by simp
  from unnamed_callee_skipped [OF callee, of socket_lib "[]" "[]" 1 "([], {})" "''eval''"] callee
  show ?thesis
    by blast
qed

section \<open>A source that does not parse\<close>




section \<open>The line suffix\<close>

text \<open>
  Against C10 as stated: for a source that holds a NUL character the parser reports no
  line, and the detail of the parse-failure issue does not end with a line suffix.
\<close>

theorem missing_line_counterexample:
  "static_scan nul_lib [CHR 0x00] ''/nodes/node.py'' =
     Inr [\<lparr>severity = ''MEDIUM'',
           detail = ''Failed to parse Python AST: source code string cannot contain null bytes''\<rparr>]
   \<and> \<not> suffix '')'' ''Failed to parse Python AST: source code string cannot contain null bytes''"
  by (simp add: nul_lib_def null_bytes_def static_eval suffix_def)

text \<open>
  C10, amended. Every issue that the static scan returns has a detail that ends with
  \<open>(line N)\<close> for some \<open>N\<close>, except the parse-failure issue when the \<open>SyntaxError\<close>
  carries no line number (\<open>lineno\<close> is \<open>None\<close>): its detail is then the parser's
  message with no suffix.
\<close>

theorem static_issue_line_suffix:
  "static_scan L source node_path = Inr found \<Longrightarrow> i \<in> set found \<Longrightarrow>
     (\<exists>n. suffix ('' (line '' @ str_int n @ '')'') (detail i))
     \<or> (\<exists>exc. ast_parse L source node_path = Syntax_error exc \<and> lineno exc = None
              \<and> i = \<lparr>severity = ''MEDIUM'', detail = ''Failed to parse Python AST: '' @ msg exc\<rparr>)"
proof -
  assume returned: "static_scan L source node_path = Inr found"
  let ?Q = "\<lambda>i. (\<exists>n. suffix ('' (line '' @ str_int n @ '')'') (detail i))
     \<or> (\<exists>exc. ast_parse L source node_path = Syntax_error exc \<and> lineno exc = None
              \<and> i = \<lparr>severity = ''MEDIUM'', detail = ''Failed to parse Python AST: '' @ msg exc\<rparr>)"
  have "\<forall>i \<in> set found. ?Q i"
  proof (rule static_scan_holds [OF _ _ returned])
    fix sev d line
    assume "static_emission sev d line"
    from static_emission_suffix [OF this]
    show "?Q \<lparr>severity = sev, detail = with_line d line\<rparr>"
      by simp
  next
    fix exc
    assume failed: "ast_parse L source node_path = Syntax_error exc"
    show "?Q (parse_failure_issue exc)"
    proof (cases "lineno exc")
      case None
      then have "parse_failure_issue exc =
          \<lparr>severity = ''MEDIUM'', detail = ''Failed to parse Python AST: '' @ msg exc\<rparr>"
        by (simp add: parse_failure_issue_def parse_failure_detail_def with_line_def)
      with failed None show ?thesis
        by blast
    next
      case (Some n)
      then have "detail (parse_failure_issue exc) = parse_failure_detail exc @ ('' (line '' @ str_int n @ '')'')"
        by (simp add: parse_failure_issue_def with_line_def)
      then have "suffix ('' (line '' @ str_int n @ '')'') (detail (parse_failure_issue exc))"
        by (rule suffixI)
      then show ?thesis
        by blast
    qed
  qed
  then show "i \<in> set found \<Longrightarrow> ?Q i"
    by blast
qed

text \<open>
  The issue of \<open>import socket\<close>.
\<close>

theorem static_issue_line_suffix_witness:
  "static_scan socket_lib ''import socket'' ''/nodes/node.py'' =
     Inr [\<lparr>severity = ''MEDIUM'', detail = ''Imports risky module 'socket'. (line 1)''\<rparr>]
   \<and> (\<exists>n. suffix ('' (line '' @ str_int n @ '')'') ''Imports risky module 'socket'. (line 1)'')"
proof -
  let ?i = "\<lparr>severity = ''MEDIUM'', detail = ''Imports risky module 'socket'. (line 1)''\<rparr>"
  have scan: "static_scan socket_lib ''import socket'' ''/nodes/node.py'' = Inr [?i]"
    by (simp add: socket_lib_def static_eval)
  have mem: "?i \<in> set [?i]"
    by simp
  have parsed: "\<not> (\<exists>exc. ast_parse socket_lib ''import socket'' ''/nodes/node.py'' = Syntax_error exc \<and> lineno exc = None
      \<and> ?i = \<lparr>severity = ''MEDIUM'', detail = ''Failed to parse Python AST: '' @ msg exc\<rparr>)"
    by (simp add: socket_lib_def quiet_lib_def)
  from static_issue_line_suffix [OF scan mem] parsed
  have "\<exists>n. suffix ('' (line '' @ str_int n @ '')'') (detail ?i)"
    by blast
  with scan show ?thesis
    by simp
qed

end
